theory Spec2Isabelle
  imports Main
begin

section \<open>The Grouper power HAL (power/power.c)\<close>

text \<open>
  A shallow embedding of \<^verbatim>\<open>power/power.c\<close>: the module-level variables
  \<^verbatim>\<open>low_power_mode\<close> and \<^verbatim>\<open>freq_set[]\<close>, the sysfs writer, the uevent handler
  \<^verbatim>\<open>uevent_event\<close> and the hint entry point \<^verbatim>\<open>grouper_power_hint\<close>.

  Everything the C code does to the outside world is a call of \<^verbatim>\<open>sysfs_write\<close> or of
  \<^verbatim>\<open>usleep\<close>. Both are recorded, in order, in a trace that is part of the state, so
  that "no endpoint write" is the statement that the trace has not grown. Whether a
  write succeeds is decided by the world, not by the program: it is a parameter
  \<open>env\<close>, asked with the number of effects performed so far (a logical clock), the
  path and the value.

  Both \<^verbatim>\<open>uevent_event\<close> and the \<^verbatim>\<open>POWER_HINT_LOW_POWER\<close> case hold
  \<^verbatim>\<open>low_power_mode_lock\<close> while they read or write the two variables, so each runs as
  one atomic state transformer; the mutex itself and the logging macros are not modelled.
  Neither are \<^verbatim>\<open>grouper_power_init\<close>, \<^verbatim>\<open>grouper_power_set_interactive\<close> and the
  \<^verbatim>\<open>poll\<close> loop of \<^verbatim>\<open>thread_uevent\<close>: they touch neither of the two variables, and
  no property below is about them.
\<close>

subsection \<open>Constants of the source\<close>

definition CPUQUIET_CORE_LOCKER :: string where
  "CPUQUIET_CORE_LOCKER = ''/sys/devices/system/cpu/cpuquiet/balanced/core_lock_trigger''"

definition CPUFREQ_BOOSTPULSE :: string where
  "CPUFREQ_BOOSTPULSE = ''/sys/devices/system/cpu/cpufreq/interactive/boostpulse''"

definition UEVENT_MSG_LEN :: int where
  "UEVENT_MSG_LEN = 2048"

definition TOTAL_CPUS :: nat where
  "TOTAL_CPUS = 4"

definition RETRY_TIME_CHANGING_FREQ :: nat where
  "RETRY_TIME_CHANGING_FREQ = 20"

definition SLEEP_USEC_BETWN_RETRY :: nat where
  "SLEEP_USEC_BETWN_RETRY = 200"

definition LOW_POWER_MAX_FREQ :: string where
  "LOW_POWER_MAX_FREQ = ''640000''"

definition LOW_POWER_MIN_FREQ :: string where
  "LOW_POWER_MIN_FREQ = ''51000''"

definition NORMAL_MAX_FREQ :: string where
  "NORMAL_MAX_FREQ = ''1300000''"

definition UEVENT_STRING :: string where
  "UEVENT_STRING = ''online@/devices/system/cpu/''"

definition cpu_path_min :: "string list" where
  "cpu_path_min =
    [''/sys/devices/system/cpu/cpu0/cpufreq/scaling_min_freq'',
     ''/sys/devices/system/cpu/cpu1/cpufreq/scaling_min_freq'',
     ''/sys/devices/system/cpu/cpu2/cpufreq/scaling_min_freq'',
     ''/sys/devices/system/cpu/cpu3/cpufreq/scaling_min_freq'']"

definition cpu_path_max :: "string list" where
  "cpu_path_max =
    [''/sys/devices/system/cpu/cpu0/cpufreq/scaling_max_freq'',
     ''/sys/devices/system/cpu/cpu1/cpufreq/scaling_max_freq'',
     ''/sys/devices/system/cpu/cpu2/cpufreq/scaling_max_freq'',
     ''/sys/devices/system/cpu/cpu3/cpufreq/scaling_max_freq'']"

subsection \<open>State, effects and the sysfs writer\<close>

datatype event = Write string string | Usleep nat

record hal_state =
  low_power_mode :: bool
  freq_set :: "bool list"
  trace :: "event list"

text \<open>The static initialisers: \<^verbatim>\<open>low_power_mode = false\<close>, \<^verbatim>\<open>freq_set\<close> zeroed.\<close>

definition init_state :: hal_state where
  "init_state = \<lparr>low_power_mode = False, freq_set = replicate TOTAL_CPUS False, trace = []\<rparr>"

type_synonym sysfs_env = "nat \<Rightarrow> string \<Rightarrow> string \<Rightarrow> bool"

text \<open>
  \<^verbatim>\<open>sysfs_write\<close> returns 0 when both \<^verbatim>\<open>open\<close> and \<^verbatim>\<open>write\<close> succeed and -1
  otherwise; \<open>env\<close> says which.
\<close>

definition sysfs_write :: "sysfs_env \<Rightarrow> string \<Rightarrow> string \<Rightarrow> hal_state \<Rightarrow> int \<times> hal_state" where
  "sysfs_write env path s st =
     (if env (length (trace st)) path s then 0 else - 1,
      st\<lparr>trace := trace st @ [Write path s]\<rparr>)"

definition usleep :: "nat \<Rightarrow> hal_state \<Rightarrow> hal_state" where
  "usleep usec st = st\<lparr>trace := trace st @ [Usleep usec]\<rparr>"

text \<open>The endpoint writes of a trace, and the writes a run added to a given state.\<close>

fun is_write :: "event \<Rightarrow> bool" where
  "is_write (Write p s) = True"
| "is_write (Usleep u) = False"

definition writes_of :: "event list \<Rightarrow> event list" where
  "writes_of tr = filter is_write tr"

definition new_events :: "hal_state \<Rightarrow> hal_state \<Rightarrow> event list" where
  "new_events st st' = drop (length (trace st)) (trace st')"

subsection \<open>The C library functions used by the handler\<close>

text \<open>
  \<^verbatim>\<open>strstr\<close>, \<^verbatim>\<open>strlen\<close> and \<^verbatim>\<open>strtol\<close> read a C string: the bytes from the pointer
  up to the first NUL. \<open>c_str\<close> takes the bytes found in memory at \<^verbatim>\<open>msg\<close> and gives
  that string.
\<close>

definition c_str :: "string \<Rightarrow> string" where
  "c_str buf = takeWhile (\<lambda>c. c \<noteq> CHR 0x00) buf"

fun starts_with :: "string \<Rightarrow> string \<Rightarrow> bool" where
  "starts_with s [] = True"
| "starts_with [] (y # ys) = False"
| "starts_with (x # xs) (y # ys) = (x = y \<and> starts_with xs ys)"

text \<open>\<^verbatim>\<open>strstr(hay, needle) != NULL\<close>.\<close>

fun strstr :: "string \<Rightarrow> string \<Rightarrow> bool" where
  "strstr [] needle = (needle = [])"
| "strstr (h # hs) needle = (starts_with (h # hs) needle \<or> strstr hs needle)"

datatype errno = EINVAL | ERANGE

definition LONG_MAX :: int where
  "LONG_MAX = 2147483647"

definition LONG_MIN :: int where
  "LONG_MIN = - 2147483648"

definition isspace :: "char \<Rightarrow> bool" where
  "isspace c = (c \<in> {CHR '' '', CHR 0x09, CHR 0x0A, CHR 0x0B, CHR 0x0C, CHR 0x0D})"

definition isdigit :: "char \<Rightarrow> bool" where
  "isdigit c = (48 \<le> (of_char c :: nat) \<and> (of_char c :: nat) \<le> 57)"

definition digit_val :: "char \<Rightarrow> int" where
  "digit_val c = int (of_char c) - 48"

text \<open>
  \<^verbatim>\<open>strtol(s, NULL, 10)\<close> as ISO C describes it: white space is skipped, an optional
  sign is read, then the longest run of decimal digits; a value outside the range of
  \<^verbatim>\<open>long\<close> (32 bits on this ARMv7 device) is clamped and \<^verbatim>\<open>errno\<close> becomes
  \<^verbatim>\<open>ERANGE\<close>; with no digit at all the result is 0. Whether \<^verbatim>\<open>errno\<close> becomes
  \<^verbatim>\<open>EINVAL\<close> in that last case is left to the implementation by POSIX, so it is the
  parameter \<open>noconv_einval\<close>. The second component is the value stored to \<^verbatim>\<open>errno\<close>,
  if any.
\<close>

definition strtol :: "bool \<Rightarrow> string \<Rightarrow> int \<times> errno option" where
  "strtol noconv_einval s =
     (let s1 = dropWhile isspace s;
          neg = (s1 \<noteq> [] \<and> hd s1 = CHR ''-'');
          s2 = (if s1 \<noteq> [] \<and> (hd s1 = CHR ''-'' \<or> hd s1 = CHR ''+'') then tl s1 else s1);
          ds = takeWhile isdigit s2;
          v = foldl (\<lambda>acc d. acc * 10 + digit_val d) 0 ds;
          r = (if neg then - v else v)
      in if ds = [] then (0, if noconv_einval then Some EINVAL else None)
         else if r > LONG_MAX then (LONG_MAX, Some ERANGE)
         else if r < LONG_MIN then (LONG_MIN, Some ERANGE)
         else (r, None))"

subsection \<open>The uevent handler\<close>

text \<open>
  The two retry loops of \<^verbatim>\<open>uevent_event\<close>; the third argument is \<^verbatim>\<open>retry\<close>, which
  counts down from \<^verbatim>\<open>RETRY_TIME_CHANGING_FREQ\<close>.
\<close>

fun low_power_retry :: "sysfs_env \<Rightarrow> nat \<Rightarrow> nat \<Rightarrow> hal_state \<Rightarrow> hal_state" where
  "low_power_retry env cpu 0 st = st"
| "low_power_retry env cpu (Suc retry) st =
     (let st1 = snd (sysfs_write env (cpu_path_min ! cpu) LOW_POWER_MIN_FREQ st);
          (ret, st2) = sysfs_write env (cpu_path_max ! cpu) LOW_POWER_MAX_FREQ st1
      in if ret = 0 then st2\<lparr>freq_set := (freq_set st2)[cpu := True]\<rparr>
         else low_power_retry env cpu retry (usleep SLEEP_USEC_BETWN_RETRY st2))"

fun normal_retry :: "sysfs_env \<Rightarrow> nat \<Rightarrow> nat \<Rightarrow> hal_state \<Rightarrow> hal_state" where
  "normal_retry env cpu 0 st = st"
| "normal_retry env cpu (Suc retry) st =
     (let (ret, st1) = sysfs_write env (cpu_path_max ! cpu) NORMAL_MAX_FREQ st
      in if ret = 0 then st1\<lparr>freq_set := (freq_set st1)[cpu := False]\<rparr>
         else normal_retry env cpu retry (usleep SLEEP_USEC_BETWN_RETRY st1))"

text \<open>
  \<^verbatim>\<open>cpu = strtol(cp + n - 1, NULL, 10)\<close> with \<^verbatim>\<open>n = strlen(cp)\<close> and \<^verbatim>\<open>errno\<close>
  cleared before: the conversion starts at the last byte of the string. It is only
  reached when the signature was found, so the string is not empty.
\<close>

definition parse_cpu :: "bool \<Rightarrow> string \<Rightarrow> int \<times> errno option" where
  "parse_cpu noconv_einval cp = strtol noconv_einval (drop (length cp - 1) cp)"

text \<open>
  \<^verbatim>\<open>uevent_event\<close>. \<open>n\<close> is what \<^verbatim>\<open>recv\<close> returned and \<open>buf\<close> the bytes at
  \<^verbatim>\<open>msg\<close> afterwards. The result is the return value and the new state.
\<close>

definition uevent_event :: "bool \<Rightarrow> sysfs_env \<Rightarrow> int \<Rightarrow> string \<Rightarrow> hal_state \<Rightarrow> int \<times> hal_state" where
  "uevent_event noconv_einval env n buf st =
     (if n \<le> 0 then (- 1, st)
      else if n \<ge> UEVENT_MSG_LEN then (- 1, st)
      else let cp = c_str buf in
        if strstr cp UEVENT_STRING then
          (let (cpu, err) = parse_cpu noconv_einval cp in
           if err = Some EINVAL \<or> err = Some ERANGE \<or> cpu < 0 \<or> cpu \<ge> int TOTAL_CPUS
           then (- 1, st)
           else if low_power_mode st \<and> \<not> freq_set st ! nat cpu
           then (0, low_power_retry env (nat cpu) RETRY_TIME_CHANGING_FREQ st)
           else if \<not> low_power_mode st \<and> freq_set st ! nat cpu
           then (0, normal_retry env (nat cpu) RETRY_TIME_CHANGING_FREQ st)
           else (0, st))
        else (0, st))"

subsection \<open>The hint entry point\<close>

text \<open>
  \<^verbatim>\<open>power_hint_t\<close> is declared in \<^verbatim>\<open>hardware/power.h\<close>, which is not part of this
  repository. The switch names two of its enumerators; every other one, whatever its
  number, is \<open>POWER_HINT_OTHER\<close>.
\<close>

datatype power_hint_t = POWER_HINT_INTERACTION | POWER_HINT_LOW_POWER | POWER_HINT_OTHER int

text \<open>The bodies of the two \<^verbatim>\<open>for (cpu = 0; cpu < TOTAL_CPUS; cpu++)\<close> loops.\<close>

definition low_power_body :: "sysfs_env \<Rightarrow> nat \<Rightarrow> hal_state \<Rightarrow> hal_state" where
  "low_power_body env cpu st =
     (let st1 = snd (sysfs_write env (cpu_path_min ! cpu) LOW_POWER_MIN_FREQ st);
          (ret, st2) = sysfs_write env (cpu_path_max ! cpu) LOW_POWER_MAX_FREQ st1
      in if ret = 0 then st2\<lparr>freq_set := (freq_set st2)[cpu := True]\<rparr> else st2)"

definition normal_body :: "sysfs_env \<Rightarrow> nat \<Rightarrow> hal_state \<Rightarrow> hal_state" where
  "normal_body env cpu st =
     (let (ret, st1) = sysfs_write env (cpu_path_max ! cpu) NORMAL_MAX_FREQ st
      in if ret = 0 then st1\<lparr>freq_set := (freq_set st1)[cpu := False]\<rparr> else st1)"

text \<open>\<open>data\<close> is the pointer argument; 0 is \<^verbatim>\<open>NULL\<close>.\<close>

definition grouper_power_hint :: "sysfs_env \<Rightarrow> power_hint_t \<Rightarrow> nat \<Rightarrow> hal_state \<Rightarrow> hal_state" where
  "grouper_power_hint env hint data st =
     (case hint of
        POWER_HINT_INTERACTION \<Rightarrow> snd (sysfs_write env CPUFREQ_BOOSTPULSE ''1'' st)
      | POWER_HINT_LOW_POWER \<Rightarrow>
          (if data \<noteq> 0 then
             (let st1 = snd (sysfs_write env CPUQUIET_CORE_LOCKER ''0'' st);
                  st2 = st1\<lparr>low_power_mode := True\<rparr>
              in fold (low_power_body env) [0..<TOTAL_CPUS] st2)
           else
             (let st1 = snd (sysfs_write env CPUQUIET_CORE_LOCKER ''1'' st);
                  st2 = st1\<lparr>low_power_mode := False\<rparr>
              in fold (normal_body env) [0..<TOTAL_CPUS] st2))
      | POWER_HINT_OTHER v \<Rightarrow> st)"

subsection \<open>Concrete worlds and messages\<close>

text \<open>
  Worlds in which every write succeeds, none does, only the maximum-frequency endpoint
  of CPU 1 refuses, or everything works from a given moment on.
\<close>

definition env_all_ok :: sysfs_env where
  "env_all_ok t path s = True"

definition env_none_ok :: sysfs_env where
  "env_none_ok t path s = False"

definition env_cpu1_max_fails :: sysfs_env where
  "env_cpu1_max_fails t path s = (path \<noteq> cpu_path_max ! 1)"

definition env_ok_from :: "nat \<Rightarrow> sysfs_env" where
  "env_ok_from t0 t path s = (t0 \<le> t)"

text \<open>
  A kernel uevent datagram for a device below \<^verbatim>\<open>/devices/system/cpu/\<close> coming
  online: the header \<^verbatim>\<open>online@<devpath>\<close>, a NUL, then NUL-terminated fields.
\<close>

definition uevent_online :: "string \<Rightarrow> string" where
  "uevent_online dev = UEVENT_STRING @ dev @ [CHR 0x00] @ ''ACTION=online'' @ [CHR 0x00]"

text \<open>
  The state after a low-power request all of whose writes failed: the mode is low-power
  and no CPU has its bounds applied.
\<close>

definition lp_unapplied :: hal_state where
  "lp_unapplied = grouper_power_hint env_none_ok POWER_HINT_LOW_POWER 1 init_state"

section \<open>Properties\<close>

subsection \<open>Auxiliary facts\<close>

lemma cpus_upt: "[0..<TOTAL_CPUS] = [0, 1, 2, 3]"
  by (simp add: TOTAL_CPUS_def upt_rec)

lemma low_power_body_mode: "low_power_mode (low_power_body env c st) = low_power_mode st"
  by (simp add: low_power_body_def sysfs_write_def Let_def)

lemma normal_body_mode: "low_power_mode (normal_body env c st) = low_power_mode st"
  by (simp add: normal_body_def sysfs_write_def Let_def)

lemma fold_low_power_mode: "low_power_mode (fold (low_power_body env) cs st) = low_power_mode st"
  by (induction cs arbitrary: st) (simp_all add: low_power_body_mode)

lemma fold_normal_mode: "low_power_mode (fold (normal_body env) cs st) = low_power_mode st"
  by (induction cs arbitrary: st) (simp_all add: normal_body_mode)

lemma low_power_body_trace:
  "trace (low_power_body env c st) =
     trace st @ [Write (cpu_path_min ! c) LOW_POWER_MIN_FREQ,
                 Write (cpu_path_max ! c) LOW_POWER_MAX_FREQ]"
  by (simp add: low_power_body_def sysfs_write_def Let_def)

lemma normal_body_trace:
  "trace (normal_body env c st) = trace st @ [Write (cpu_path_max ! c) NORMAL_MAX_FREQ]"
  by (simp add: normal_body_def sysfs_write_def Let_def)

lemma fold_low_power_trace:
  "trace (fold (low_power_body env) cs st) =
     trace st @ concat (map (\<lambda>c. [Write (cpu_path_min ! c) LOW_POWER_MIN_FREQ,
                                  Write (cpu_path_max ! c) LOW_POWER_MAX_FREQ]) cs)"
  by (induction cs arbitrary: st) (simp_all add: low_power_body_trace)

lemma fold_normal_trace:
  "trace (fold (normal_body env) cs st) =
     trace st @ map (\<lambda>c. Write (cpu_path_max ! c) NORMAL_MAX_FREQ) cs"
  by (induction cs arbitrary: st) (simp_all add: normal_body_trace)

text \<open>The conversion sees exactly one character: the last one of the string.\<close>

lemma drop_to_last: "cp \<noteq> [] \<Longrightarrow> drop (length cp - 1) cp = [last cp]"
proof -
  assume "cp \<noteq> []"
  then have "drop (length (butlast cp)) (butlast cp @ [last cp]) = drop (length cp - 1) cp"
    by simp
  then show ?thesis by simp
qed

lemma isdigit_not_space: "isdigit c \<Longrightarrow> \<not> isspace c"
  by (auto simp: isdigit_def isspace_def)

lemma isdigit_not_sign: "isdigit c \<Longrightarrow> c \<noteq> CHR ''-'' \<and> c \<noteq> CHR ''+''"
  by (auto simp: isdigit_def)

lemma digit_val_range: "isdigit c \<Longrightarrow> 0 \<le> digit_val c \<and> digit_val c \<le> 9"
  by (auto simp: isdigit_def digit_val_def)

lemma strtol_digit: "isdigit c \<Longrightarrow> strtol b [c] = (digit_val c, None)"
  using isdigit_not_space [of c] isdigit_not_sign [of c] digit_val_range [of c]
  by (simp add: strtol_def Let_def LONG_MAX_def LONG_MIN_def)

lemma strtol_nondigit:
  "\<not> isdigit c \<Longrightarrow> strtol b [c] = (0, if b then Some EINVAL else None)"
  by (simp add: strtol_def Let_def)

lemma parse_cpu_last:
  "cp \<noteq> [] \<Longrightarrow>
   parse_cpu b cp = (if isdigit (last cp) then (digit_val (last cp), None)
                     else (0, if b then Some EINVAL else None))"
proof -
  assume "cp \<noteq> []"
  then have "parse_cpu b cp = strtol b [last cp]"
    using drop_to_last [of cp] by (simp add: parse_cpu_def)
  then show ?thesis
    by (simp add: strtol_digit strtol_nondigit)
qed

lemma strstr_nonempty: "strstr cp UEVENT_STRING \<Longrightarrow> cp \<noteq> []"
  by (auto simp: UEVENT_STRING_def)

text \<open>
  The low-power retry loop, started with \<open>r\<close> retries left. The maximum-bound write of
  attempt \<open>j\<close> (counted from 0) is the effect number \<open>3 * j + 1\<close> after the start: each
  failed attempt is a minimum write, a maximum write and a sleep.
\<close>

lemma low_power_retry_success:
  "k < r \<Longrightarrow>
   (\<forall>j<k. \<not> env (length (trace st) + 3 * j + 1) (cpu_path_max ! cpu) LOW_POWER_MAX_FREQ) \<Longrightarrow>
   env (length (trace st) + 3 * k + 1) (cpu_path_max ! cpu) LOW_POWER_MAX_FREQ \<Longrightarrow>
   low_power_retry env cpu r st =
     st\<lparr>freq_set := (freq_set st)[cpu := True],
        trace := trace st @
          concat (replicate k [Write (cpu_path_min ! cpu) LOW_POWER_MIN_FREQ,
                               Write (cpu_path_max ! cpu) LOW_POWER_MAX_FREQ,
                               Usleep SLEEP_USEC_BETWN_RETRY]) @
          [Write (cpu_path_min ! cpu) LOW_POWER_MIN_FREQ,
           Write (cpu_path_max ! cpu) LOW_POWER_MAX_FREQ]\<rparr>"
proof (induction r arbitrary: k st)
  case 0
  then show ?case by simp
next
  case (Suc r)
  show ?case
  proof (cases k)
    case 0
    with Suc.prems show ?thesis
      by (simp add: sysfs_write_def Let_def)
  next
    case (Suc k')
    let ?st' = "usleep SLEEP_USEC_BETWN_RETRY
                  (snd (sysfs_write env (cpu_path_max ! cpu) LOW_POWER_MAX_FREQ
                     (snd (sysfs_write env (cpu_path_min ! cpu) LOW_POWER_MIN_FREQ st))))"
    have len: "length (trace ?st') = length (trace st) + 3"
      by (simp add: usleep_def sysfs_write_def)
    from Suc.prems Suc have fail0:
      "\<not> env (length (trace st) + 1) (cpu_path_max ! cpu) LOW_POWER_MAX_FREQ"
      by (metis add.right_neutral mult_0_right zero_less_Suc)
    have step: "low_power_retry env cpu (Suc r) st = low_power_retry env cpu r ?st'"
      using fail0 by (simp add: sysfs_write_def Let_def)
    have k': "k' < r" using Suc.prems Suc by simp
    have fails: "\<forall>j<k'. \<not> env (length (trace ?st') + 3 * j + 1) (cpu_path_max ! cpu) LOW_POWER_MAX_FREQ"
    proof (intro allI impI)
      fix j assume "j < k'"
      then have "Suc j < k" using Suc by simp
      with Suc.prems
      have "\<not> env (length (trace st) + 3 * Suc j + 1) (cpu_path_max ! cpu) LOW_POWER_MAX_FREQ"
        by blast
      then show "\<not> env (length (trace ?st') + 3 * j + 1) (cpu_path_max ! cpu) LOW_POWER_MAX_FREQ"
        by (simp add: len add.commute add.left_commute)
    qed
    have ok: "env (length (trace ?st') + 3 * k' + 1) (cpu_path_max ! cpu) LOW_POWER_MAX_FREQ"
      using Suc.prems Suc by (simp add: len add.commute add.left_commute)
    show ?thesis
      unfolding step Suc.IH [OF k' fails ok]
      by (simp add: Suc usleep_def sysfs_write_def)
  qed
qed

lemma low_power_retry_exhaust:
  "(\<forall>j<r. \<not> env (length (trace st) + 3 * j + 1) (cpu_path_max ! cpu) LOW_POWER_MAX_FREQ) \<Longrightarrow>
   low_power_retry env cpu r st =
     st\<lparr>trace := trace st @
          concat (replicate r [Write (cpu_path_min ! cpu) LOW_POWER_MIN_FREQ,
                               Write (cpu_path_max ! cpu) LOW_POWER_MAX_FREQ,
                               Usleep SLEEP_USEC_BETWN_RETRY])\<rparr>"
proof (induction r arbitrary: st)
  case 0
  then show ?case by simp
next
  case (Suc r)
  let ?st' = "usleep SLEEP_USEC_BETWN_RETRY
                (snd (sysfs_write env (cpu_path_max ! cpu) LOW_POWER_MAX_FREQ
                   (snd (sysfs_write env (cpu_path_min ! cpu) LOW_POWER_MIN_FREQ st))))"
  have len: "length (trace ?st') = length (trace st) + 3"
    by (simp add: usleep_def sysfs_write_def)
  from Suc.prems have fail0:
    "\<not> env (length (trace st) + 1) (cpu_path_max ! cpu) LOW_POWER_MAX_FREQ"
    by (metis add.right_neutral mult_0_right zero_less_Suc)
  have step: "low_power_retry env cpu (Suc r) st = low_power_retry env cpu r ?st'"
    using fail0 by (simp add: sysfs_write_def Let_def)
  have fails: "\<forall>j<r. \<not> env (length (trace ?st') + 3 * j + 1) (cpu_path_max ! cpu) LOW_POWER_MAX_FREQ"
  proof (intro allI impI)
    fix j assume "j < r"
    then have "Suc j < Suc r" by simp
    with Suc.prems
    have "\<not> env (length (trace st) + 3 * Suc j + 1) (cpu_path_max ! cpu) LOW_POWER_MAX_FREQ"
      by blast
    then show "\<not> env (length (trace ?st') + 3 * j + 1) (cpu_path_max ! cpu) LOW_POWER_MAX_FREQ"
      by (simp add: len add.commute add.left_commute)
  qed
  show ?case
    unfolding step Suc.IH [OF fails]
    by (simp add: usleep_def sysfs_write_def)
qed

text \<open>What one pass of a \<^verbatim>\<open>for\<close> loop of the hint does to \<^verbatim>\<open>freq_set\<close>.\<close>

lemma low_power_body_freq:
  "freq_set (low_power_body env c st) =
     (if env (Suc (length (trace st))) (cpu_path_max ! c) LOW_POWER_MAX_FREQ
      then (freq_set st)[c := True] else freq_set st)"
  by (simp add: low_power_body_def sysfs_write_def Let_def)

lemma normal_body_freq:
  "freq_set (normal_body env c st) =
     (if env (length (trace st)) (cpu_path_max ! c) NORMAL_MAX_FREQ
      then (freq_set st)[c := False] else freq_set st)"
  by (simp add: normal_body_def sysfs_write_def Let_def)

lemma fold_low_power_freq_id:
  "\<forall>c\<in>set cs. freq_set st ! c \<Longrightarrow> freq_set (fold (low_power_body env) cs st) = freq_set st"
proof (induction cs arbitrary: st)
  case Nil
  then show ?case by simp
next
  case (Cons c cs)
  have same: "freq_set (low_power_body env c st) = freq_set st"
    using Cons.prems list_update_id [of "freq_set st" c]
    by (simp add: low_power_body_freq)
  with Cons.prems have "\<forall>c'\<in>set cs. freq_set (low_power_body env c st) ! c'" by simp
  from Cons.IH [OF this] same show ?case by simp
qed

lemma fold_normal_freq_id:
  "\<forall>c\<in>set cs. \<not> freq_set st ! c \<Longrightarrow> freq_set (fold (normal_body env) cs st) = freq_set st"
proof (induction cs arbitrary: st)
  case Nil
  then show ?case by simp
next
  case (Cons c cs)
  have same: "freq_set (normal_body env c st) = freq_set st"
    using Cons.prems list_update_id [of "freq_set st" c]
    by (simp add: normal_body_freq)
  with Cons.prems have "\<forall>c'\<in>set cs. \<not> freq_set (normal_body env c st) ! c'" by simp
  from Cons.IH [OF this] same show ?case by simp
qed

lemma hint_low_power_freq_id:
  "\<forall>cpu<TOTAL_CPUS. freq_set st ! cpu = (data \<noteq> 0) \<Longrightarrow>
   freq_set (grouper_power_hint env POWER_HINT_LOW_POWER data st) = freq_set st"
  by (simp add: grouper_power_hint_def Let_def sysfs_write_def
        fold_low_power_freq_id fold_normal_freq_id)

lemma hint_low_power_mode:
  "low_power_mode (grouper_power_hint env POWER_HINT_LOW_POWER data st) = (data \<noteq> 0)"
  by (simp add: grouper_power_hint_def Let_def fold_low_power_mode fold_normal_mode)

lemma hint_low_power_new_events:
  "new_events st (grouper_power_hint env POWER_HINT_LOW_POWER data st) =
     (if data \<noteq> 0
      then [Write CPUQUIET_CORE_LOCKER ''0'',
            Write (cpu_path_min ! 0) LOW_POWER_MIN_FREQ, Write (cpu_path_max ! 0) LOW_POWER_MAX_FREQ,
            Write (cpu_path_min ! 1) LOW_POWER_MIN_FREQ, Write (cpu_path_max ! 1) LOW_POWER_MAX_FREQ,
            Write (cpu_path_min ! 2) LOW_POWER_MIN_FREQ, Write (cpu_path_max ! 2) LOW_POWER_MAX_FREQ,
            Write (cpu_path_min ! 3) LOW_POWER_MIN_FREQ, Write (cpu_path_max ! 3) LOW_POWER_MAX_FREQ]
      else [Write CPUQUIET_CORE_LOCKER ''1'',
            Write (cpu_path_max ! 0) NORMAL_MAX_FREQ, Write (cpu_path_max ! 1) NORMAL_MAX_FREQ,
            Write (cpu_path_max ! 2) NORMAL_MAX_FREQ, Write (cpu_path_max ! 3) NORMAL_MAX_FREQ])"
  by (simp add: new_events_def grouper_power_hint_def Let_def sysfs_write_def
        low_power_body_trace normal_body_trace cpus_upt)

lemma hint_trace_length:
  "length (trace (grouper_power_hint env POWER_HINT_LOW_POWER data st)) =
     length (trace st) + (if data \<noteq> 0 then 9 else 5)"
  by (simp add: grouper_power_hint_def Let_def sysfs_write_def cpus_upt
        low_power_body_trace normal_body_trace)

lemma init_freq_set: "freq_set init_state = [False, False, False, False]"
  by (simp add: init_state_def TOTAL_CPUS_def numeral_eq_Suc)

lemma list4: "length xs = 4 \<Longrightarrow> \<exists>a b c d. xs = [a, b, c, d]"
  by (auto simp: numeral_eq_Suc length_Suc_conv)

lemma hint_low_power_cpu1_fails:
  assumes len: "length (freq_set st) = TOTAL_CPUS"
    and unset: "\<not> freq_set st ! 1"
    and data: "data \<noteq> 0"
    and fail1: "\<forall>t. \<not> env t (cpu_path_max ! 1) LOW_POWER_MAX_FREQ"
    and ok023: "\<forall>t. \<forall>c\<in>{0, 2, 3}. env t (cpu_path_max ! c) LOW_POWER_MAX_FREQ"
  shows "freq_set (grouper_power_hint env POWER_HINT_LOW_POWER data st) = [True, False, True, True]"
proof -
  from len obtain a b c d where fs: "freq_set st = [a, b, c, d]"
    using list4 [of "freq_set st"] by (auto simp: TOTAL_CPUS_def)
  with unset have b: "\<not> b" by simp
  show ?thesis
    using data fail1 ok023 fs b
    by (simp add: grouper_power_hint_def Let_def cpus_upt low_power_body_freq
          low_power_body_trace sysfs_write_def)
qed

lemma lp_unapplied_eq:
  "lp_unapplied =
     \<lparr>low_power_mode = True, freq_set = [False, False, False, False],
      trace = [Write CPUQUIET_CORE_LOCKER ''0'',
               Write (cpu_path_min ! 0) LOW_POWER_MIN_FREQ, Write (cpu_path_max ! 0) LOW_POWER_MAX_FREQ,
               Write (cpu_path_min ! 1) LOW_POWER_MIN_FREQ, Write (cpu_path_max ! 1) LOW_POWER_MAX_FREQ,
               Write (cpu_path_min ! 2) LOW_POWER_MIN_FREQ, Write (cpu_path_max ! 2) LOW_POWER_MAX_FREQ,
               Write (cpu_path_min ! 3) LOW_POWER_MIN_FREQ, Write (cpu_path_max ! 3) LOW_POWER_MAX_FREQ]\<rparr>"
  by (simp add: lp_unapplied_def grouper_power_hint_def Let_def cpus_upt low_power_body_def
        sysfs_write_def env_none_ok_def init_state_def TOTAL_CPUS_def numeral_eq_Suc)

lemma lp_unapplied_mode: "low_power_mode lp_unapplied"
  by (simp add: lp_unapplied_eq)

lemma lp_unapplied_flags: "freq_set lp_unapplied = [False, False, False, False]"
  by (simp add: lp_unapplied_eq)

lemma online_cpu_cstr:
  "c_str (uevent_online ''cpu1'') = ''online@/devices/system/cpu/cpu1''"
  "c_str (uevent_online ''cpu2'') = ''online@/devices/system/cpu/cpu2''"
  "c_str (uevent_online ''cpu4'') = ''online@/devices/system/cpu/cpu4''"
  "c_str (uevent_online ''cpu12'') = ''online@/devices/system/cpu/cpu12''"
  "c_str (uevent_online ''cpu-1'') = ''online@/devices/system/cpu/cpu-1''"
  by (simp_all add: c_str_def uevent_online_def UEVENT_STRING_def)

lemma online_cpu_sig:
  "strstr (c_str (uevent_online ''cpu1'')) UEVENT_STRING"
  "strstr (c_str (uevent_online ''cpu2'')) UEVENT_STRING"
  "strstr (c_str (uevent_online ''cpu4'')) UEVENT_STRING"
  "strstr (c_str (uevent_online ''cpu12'')) UEVENT_STRING"
  "strstr (c_str (uevent_online ''cpu-1'')) UEVENT_STRING"
  by (simp_all add: online_cpu_cstr UEVENT_STRING_def)

lemma online_cpu_last:
  "last (c_str (uevent_online ''cpu1'')) = CHR ''1''"
  "last (c_str (uevent_online ''cpu2'')) = CHR ''2''"
  "last (c_str (uevent_online ''cpu4'')) = CHR ''4''"
  "last (c_str (uevent_online ''cpu12'')) = CHR ''2''"
  "last (c_str (uevent_online ''cpu-1'')) = CHR ''1''"
  by (simp_all add: online_cpu_cstr)

lemma online_cpu_parse:
  "parse_cpu b (c_str (uevent_online ''cpu1'')) = (1, None)"
  "parse_cpu b (c_str (uevent_online ''cpu2'')) = (2, None)"
  "parse_cpu b (c_str (uevent_online ''cpu4'')) = (4, None)"
  "parse_cpu b (c_str (uevent_online ''cpu12'')) = (2, None)"
  "parse_cpu b (c_str (uevent_online ''cpu-1'')) = (1, None)"
  by (simp_all add: online_cpu_cstr parse_cpu_last isdigit_def digit_val_def)

text \<open>An event for a CPU whose flag is unset, received in low-power mode, runs the retry loop.\<close>

lemma uevent_runs_low_power_retry:
  "0 < n \<Longrightarrow> n < UEVENT_MSG_LEN \<Longrightarrow> strstr (c_str buf) UEVENT_STRING \<Longrightarrow>
   parse_cpu b (c_str buf) = (int cpu, None) \<Longrightarrow> cpu < TOTAL_CPUS \<Longrightarrow>
   low_power_mode st \<Longrightarrow> \<not> freq_set st ! cpu \<Longrightarrow>
   uevent_event b env n buf st = (0, low_power_retry env cpu RETRY_TIME_CHANGING_FREQ st)"
  by (simp add: uevent_event_def)

subsection \<open>Repeated mode requests\<close>

text \<open>
  Claim C1, as the code has it. A \<^verbatim>\<open>POWER_HINT_LOW_POWER\<close> request never looks at
  \<^verbatim>\<open>freq_set\<close> before it writes. When the same request is made twice in a row, the
  second invocation performs the same effects as the first: the core-lock trigger write
  and then the per-CPU bound writes, 9 endpoint writes for low-power and 5 for normal,
  whatever the applied flags are. It leaves the mode flag as the first invocation set
  it, and when every applied flag agrees with the requested mode after the first
  invocation, it leaves every applied flag unchanged, whether its writes succeed or not.
\<close>

theorem hint_low_power_twice:
  "let st1 = grouper_power_hint env POWER_HINT_LOW_POWER data st;
       st2 = grouper_power_hint env' POWER_HINT_LOW_POWER data st1
   in new_events st1 st2 = new_events st st1 \<and>
      length (writes_of (new_events st1 st2)) = (if data \<noteq> 0 then 9 else 5) \<and>
      low_power_mode st2 = low_power_mode st1 \<and>
      ((\<forall>cpu<TOTAL_CPUS. freq_set st1 ! cpu = (data \<noteq> 0)) \<longrightarrow> freq_set st2 = freq_set st1)"
  unfolding Let_def
  by (intro conjI impI)
     (simp_all add: hint_low_power_new_events hint_low_power_mode hint_low_power_freq_id
        writes_of_def)

text \<open>
  From the initial state with every write succeeding, all four flags are set after the
  first low-power request; the second request leaves them alone and writes 9 times.
\<close>

theorem hint_low_power_twice_witness:
  "freq_set (grouper_power_hint env_all_ok POWER_HINT_LOW_POWER 1 init_state)
     = [True, True, True, True] \<and>
   freq_set (grouper_power_hint env_none_ok POWER_HINT_LOW_POWER 1
              (grouper_power_hint env_all_ok POWER_HINT_LOW_POWER 1 init_state))
     = [True, True, True, True] \<and>
   length (writes_of (new_events
             (grouper_power_hint env_all_ok POWER_HINT_LOW_POWER 1 init_state)
             (grouper_power_hint env_none_ok POWER_HINT_LOW_POWER 1
               (grouper_power_hint env_all_ok POWER_HINT_LOW_POWER 1 init_state)))) = 9"
proof -
  let ?S1 = "grouper_power_hint env_all_ok POWER_HINT_LOW_POWER 1 init_state"
  let ?S2 = "grouper_power_hint env_none_ok POWER_HINT_LOW_POWER 1 ?S1"
  have flags: "freq_set ?S1 = [True, True, True, True]"
    by (simp add: grouper_power_hint_def Let_def cpus_upt low_power_body_freq
          low_power_body_trace sysfs_write_def env_all_ok_def init_state_def
          TOTAL_CPUS_def numeral_eq_Suc)
  have all: "\<forall>cpu<TOTAL_CPUS. freq_set ?S1 ! cpu = ((1::nat) \<noteq> 0)"
    unfolding flags by (auto simp: TOTAL_CPUS_def numeral_eq_Suc less_Suc_eq)
  note twice = hint_low_power_twice [of env_all_ok 1 init_state env_none_ok, unfolded Let_def]
  from twice have "length (writes_of (new_events ?S1 ?S2)) = (if (1::nat) \<noteq> 0 then 9 else 5)"
    by blast
  then have writes: "length (writes_of (new_events ?S1 ?S2)) = 9"
    by simp
  from twice all have "freq_set ?S2 = freq_set ?S1"
    by blast
  with flags have same: "freq_set ?S2 = [True, True, True, True]"
    by simp
  from flags same writes show ?thesis
    by blast
qed

text \<open>
  The claim as the specification words it fails: after a first low-power request that
  set every flag, the second one still writes.
\<close>

theorem hint_low_power_twice_counterexample:
  "writes_of (new_events
      (grouper_power_hint env_all_ok POWER_HINT_LOW_POWER 1 init_state)
      (grouper_power_hint env_all_ok POWER_HINT_LOW_POWER 1
         (grouper_power_hint env_all_ok POWER_HINT_LOW_POWER 1 init_state))) \<noteq> []"
  by (simp add: hint_low_power_new_events writes_of_def)

subsection \<open>The CPU index of an online event\<close>

text \<open>
  Claim C2, as the code has it. The handler reads the CPU index from the last character
  of the message string alone, so the indices it can see are the digits 0 to 9. For
  every received online-event message whose last character is a digit of value
  \<^verbatim>\<open>TOTAL_CPUS\<close> (4) or more, the handler returns -1, leaves the mode flag and every
  applied flag as they were and performs no endpoint write.
\<close>

theorem uevent_index_out_of_range:
  assumes sig: "strstr (c_str buf) UEVENT_STRING"
    and dig: "isdigit (last (c_str buf))"
    and big: "int TOTAL_CPUS \<le> digit_val (last (c_str buf))"
  shows "uevent_event b env n buf st = (- 1, st)"
proof -
  have "parse_cpu b (c_str buf) = (digit_val (last (c_str buf)), None)"
    using parse_cpu_last [OF strstr_nonempty [OF sig], of b] dig by simp
  with sig big show ?thesis
    by (simp add: uevent_event_def)
qed

text \<open>An online event for \<^verbatim>\<open>cpu4\<close>, received in low-power mode with no flag set.\<close>

theorem uevent_index_out_of_range_witness:
  "strstr (c_str (uevent_online ''cpu4'')) UEVENT_STRING \<and>
   isdigit (last (c_str (uevent_online ''cpu4''))) \<and>
   int TOTAL_CPUS \<le> digit_val (last (c_str (uevent_online ''cpu4''))) \<and>
   uevent_event False env_all_ok 46 (uevent_online ''cpu4'') lp_unapplied = (- 1, lp_unapplied)"
proof -
  have sig: "strstr (c_str (uevent_online ''cpu4'')) UEVENT_STRING"
    by (rule online_cpu_sig)
  have dig: "isdigit (last (c_str (uevent_online ''cpu4'')))"
    by (simp add: online_cpu_last isdigit_def)
  have big: "int TOTAL_CPUS \<le> digit_val (last (c_str (uevent_online ''cpu4'')))"
    by (simp add: online_cpu_last digit_val_def TOTAL_CPUS_def)
  from uevent_index_out_of_range [OF sig dig big] sig dig big
  show ?thesis by blast
qed

text \<open>
  The claim as the specification words it fails for the index -1: of the message
  \<^verbatim>\<open>online@/devices/system/cpu/cpu-1\<close> the handler reads the final \<^verbatim>\<open>1\<close>, and in
  low-power mode it writes the bounds of CPU 1 and sets its flag.
\<close>

theorem uevent_index_minus_one_counterexample:
  "freq_set lp_unapplied = [False, False, False, False] \<and>
   uevent_event False env_all_ok 47 (uevent_online ''cpu-1'') lp_unapplied =
     (0, lp_unapplied\<lparr>freq_set := [False, True, False, False],
                      trace := trace lp_unapplied @
                        [Write (cpu_path_min ! 1) LOW_POWER_MIN_FREQ,
                         Write (cpu_path_max ! 1) LOW_POWER_MAX_FREQ]\<rparr>)"
proof -
  have ok: "env_all_ok (length (trace lp_unapplied) + 3 * 0 + 1) (cpu_path_max ! 1) LOW_POWER_MAX_FREQ"
    by (simp add: env_all_ok_def)
  have "low_power_retry env_all_ok 1 RETRY_TIME_CHANGING_FREQ lp_unapplied =
          lp_unapplied\<lparr>freq_set := (freq_set lp_unapplied)[1 := True],
                       trace := trace lp_unapplied @
                         [Write (cpu_path_min ! 1) LOW_POWER_MIN_FREQ,
                          Write (cpu_path_max ! 1) LOW_POWER_MAX_FREQ]\<rparr>"
    using low_power_retry_success [of 0 RETRY_TIME_CHANGING_FREQ env_all_ok lp_unapplied 1] ok
    by (simp add: RETRY_TIME_CHANGING_FREQ_def)
  moreover have "uevent_event False env_all_ok 47 (uevent_online ''cpu-1'') lp_unapplied =
          (0, low_power_retry env_all_ok 1 RETRY_TIME_CHANGING_FREQ lp_unapplied)"
    by (rule uevent_runs_low_power_retry)
       (simp_all add: UEVENT_MSG_LEN_def TOTAL_CPUS_def online_cpu_sig online_cpu_parse
          lp_unapplied_mode lp_unapplied_flags)
  ultimately show ?thesis
    by (simp add: lp_unapplied_flags online_cpu_parse)
qed

text \<open>
  Claim C3, as the code has it. The conversion starts at the last byte of the message
  string, so for every received message that contains the signature and ends in a
  decimal digit, the CPU index acted upon is the value of that one digit (a message
  ending in \<^verbatim>\<open>12\<close> yields index 2, not 12); the message is dropped when that digit is
  4 or more, and otherwise the retry loops run for that index.
\<close>

theorem uevent_index_is_last_digit:
  assumes recv: "0 < n" "n < UEVENT_MSG_LEN"
    and sig: "strstr (c_str buf) UEVENT_STRING"
    and dig: "isdigit (last (c_str buf))"
  shows "parse_cpu b (c_str buf) = (digit_val (last (c_str buf)), None) \<and>
         uevent_event b env n buf st =
           (let cpu = nat (digit_val (last (c_str buf))) in
            if TOTAL_CPUS \<le> cpu then (- 1, st)
            else if low_power_mode st \<and> \<not> freq_set st ! cpu
            then (0, low_power_retry env cpu RETRY_TIME_CHANGING_FREQ st)
            else if \<not> low_power_mode st \<and> freq_set st ! cpu
            then (0, normal_retry env cpu RETRY_TIME_CHANGING_FREQ st)
            else (0, st))"
proof -
  have p: "parse_cpu b (c_str buf) = (digit_val (last (c_str buf)), None)"
    using parse_cpu_last [OF strstr_nonempty [OF sig], of b] dig by simp
  have nonneg: "0 \<le> digit_val (last (c_str buf))"
    using digit_val_range [OF dig] by simp
  show ?thesis
    using recv sig p nonneg by (auto simp add: uevent_event_def Let_def)
qed

text \<open>The message for \<^verbatim>\<open>cpu12\<close>: the index is 2, and in low-power mode CPU 2 is retried.\<close>

theorem uevent_index_is_last_digit_witness:
  "(0::int) < 47 \<and> 47 < UEVENT_MSG_LEN \<and>
   strstr (c_str (uevent_online ''cpu12'')) UEVENT_STRING \<and>
   isdigit (last (c_str (uevent_online ''cpu12''))) \<and>
   parse_cpu False (c_str (uevent_online ''cpu12'')) = (2, None) \<and>
   uevent_event False env_all_ok 47 (uevent_online ''cpu12'') lp_unapplied =
     (0, low_power_retry env_all_ok 2 RETRY_TIME_CHANGING_FREQ lp_unapplied)"
proof -
  have recv: "(0::int) < 47" "47 < UEVENT_MSG_LEN"
    by (simp_all add: UEVENT_MSG_LEN_def)
  have sig: "strstr (c_str (uevent_online ''cpu12'')) UEVENT_STRING"
    by (rule online_cpu_sig)
  have dig: "isdigit (last (c_str (uevent_online ''cpu12'')))"
    by (simp add: online_cpu_last isdigit_def)
  have val: "digit_val (last (c_str (uevent_online ''cpu12''))) = 2"
    by (simp add: online_cpu_last digit_val_def)
  from uevent_index_is_last_digit [OF recv sig dig, of False env_all_ok lp_unapplied]
  have "parse_cpu False (c_str (uevent_online ''cpu12'')) = (2, None) \<and>
        uevent_event False env_all_ok 47 (uevent_online ''cpu12'') lp_unapplied =
          (0, low_power_retry env_all_ok 2 RETRY_TIME_CHANGING_FREQ lp_unapplied)"
    by (simp add: val Let_def TOTAL_CPUS_def lp_unapplied_mode lp_unapplied_flags)
  with recv sig dig show ?thesis by blast
qed

text \<open>
  The claim as the specification words it fails: of a message ending in \<^verbatim>\<open>12\<close> the
  handler reads index 2, and in low-power mode it writes the bounds of CPU 2.
\<close>

theorem uevent_index_twelve_counterexample:
  "parse_cpu False (c_str (uevent_online ''cpu12'')) = (2, None) \<and>
   uevent_event False env_all_ok 47 (uevent_online ''cpu12'') lp_unapplied =
     (0, lp_unapplied\<lparr>freq_set := [False, False, True, False],
                      trace := trace lp_unapplied @
                        [Write (cpu_path_min ! 2) LOW_POWER_MIN_FREQ,
                         Write (cpu_path_max ! 2) LOW_POWER_MAX_FREQ]\<rparr>)"
proof -
  have ok: "env_all_ok (length (trace lp_unapplied) + 3 * 0 + 1) (cpu_path_max ! 2) LOW_POWER_MAX_FREQ"
    by (simp add: env_all_ok_def)
  have "low_power_retry env_all_ok 2 RETRY_TIME_CHANGING_FREQ lp_unapplied =
          lp_unapplied\<lparr>freq_set := (freq_set lp_unapplied)[2 := True],
                       trace := trace lp_unapplied @
                         [Write (cpu_path_min ! 2) LOW_POWER_MIN_FREQ,
                          Write (cpu_path_max ! 2) LOW_POWER_MAX_FREQ]\<rparr>"
    using low_power_retry_success [of 0 RETRY_TIME_CHANGING_FREQ env_all_ok lp_unapplied 2] ok
    by (simp add: RETRY_TIME_CHANGING_FREQ_def)
  moreover have "uevent_event False env_all_ok 47 (uevent_online ''cpu12'') lp_unapplied =
          (0, low_power_retry env_all_ok 2 RETRY_TIME_CHANGING_FREQ lp_unapplied)"
    by (rule uevent_runs_low_power_retry)
       (simp_all add: UEVENT_MSG_LEN_def TOTAL_CPUS_def online_cpu_sig online_cpu_parse
          lp_unapplied_mode lp_unapplied_flags)
  ultimately show ?thesis
    by (simp add: lp_unapplied_flags online_cpu_parse)
qed

subsection \<open>A failed write during a low-power request, repaired by a later event\<close>

text \<open>
  Claim C4, as the code has it. A failed write leaves a flag as it was, so the state
  before the request matters. Take a state in which CPU 1's flag is not set, and a
  low-power request (\<open>data\<close> not \<^verbatim>\<open>NULL\<close>) during which every write of CPU 1's
  maximum bound fails while those of CPUs 0, 2 and 3 succeed. When the request returns the mode is low-power,
  CPU 1's flag is still false and the flags of CPUs 0, 2 and 3 are true. A following
  online event for CPU 1 then runs the retry loop: if, in the world \<open>env'\<close> of that
  event, the maximum-bound write succeeds at attempt \<open>k\<close> (below the retry count)
  after \<open>k\<close> failures, the handler has written minimum and maximum bound \<open>k + 1\<close> times
  and CPU 1's flag is true.
\<close>

theorem set_mode_cpu1_failure_then_event:
  assumes len: "length (freq_set st) = TOTAL_CPUS"
    and unset: "\<not> freq_set st ! 1"
    and data: "data \<noteq> 0"
    and fail1: "\<forall>t. \<not> env t (cpu_path_max ! 1) LOW_POWER_MAX_FREQ"
    and ok023: "\<forall>t. \<forall>c\<in>{0, 2, 3}. env t (cpu_path_max ! c) LOW_POWER_MAX_FREQ"
  shows "let st1 = grouper_power_hint env POWER_HINT_LOW_POWER data st in
         low_power_mode st1 \<and> freq_set st1 = [True, False, True, True] \<and>
         (\<forall>b env' n buf k.
            0 < n \<and> n < UEVENT_MSG_LEN \<and> strstr (c_str buf) UEVENT_STRING \<and>
            parse_cpu b (c_str buf) = (1, None) \<and> k < RETRY_TIME_CHANGING_FREQ \<and>
            (\<forall>j<k. \<not> env' (length (trace st1) + 3 * j + 1) (cpu_path_max ! 1) LOW_POWER_MAX_FREQ) \<and>
            env' (length (trace st1) + 3 * k + 1) (cpu_path_max ! 1) LOW_POWER_MAX_FREQ \<longrightarrow>
            uevent_event b env' n buf st1 =
              (0, st1\<lparr>freq_set := [True, True, True, True],
                      trace := trace st1 @
                        concat (replicate k [Write (cpu_path_min ! 1) LOW_POWER_MIN_FREQ,
                                             Write (cpu_path_max ! 1) LOW_POWER_MAX_FREQ,
                                             Usleep SLEEP_USEC_BETWN_RETRY]) @
                        [Write (cpu_path_min ! 1) LOW_POWER_MIN_FREQ,
                         Write (cpu_path_max ! 1) LOW_POWER_MAX_FREQ]\<rparr>))"
proof -
  define st1 where "st1 = grouper_power_hint env POWER_HINT_LOW_POWER data st"
  have mode: "low_power_mode st1"
    using data by (simp add: st1_def hint_low_power_mode)
  have flags: "freq_set st1 = [True, False, True, True]"
    unfolding st1_def using len unset data fail1 ok023 by (rule hint_low_power_cpu1_fails)
  have event: "uevent_event b env' n buf st1 =
      (0, st1\<lparr>freq_set := [True, True, True, True],
              trace := trace st1 @
                concat (replicate k [Write (cpu_path_min ! 1) LOW_POWER_MIN_FREQ,
                                     Write (cpu_path_max ! 1) LOW_POWER_MAX_FREQ,
                                     Usleep SLEEP_USEC_BETWN_RETRY]) @
                [Write (cpu_path_min ! 1) LOW_POWER_MIN_FREQ,
                 Write (cpu_path_max ! 1) LOW_POWER_MAX_FREQ]\<rparr>)"
    if recv: "0 < n" "n < UEVENT_MSG_LEN"
      and sig: "strstr (c_str buf) UEVENT_STRING"
      and idx: "parse_cpu b (c_str buf) = (1, None)"
      and k: "k < RETRY_TIME_CHANGING_FREQ"
      and fails: "\<forall>j<k. \<not> env' (length (trace st1) + 3 * j + 1) (cpu_path_max ! 1) LOW_POWER_MAX_FREQ"
      and ok: "env' (length (trace st1) + 3 * k + 1) (cpu_path_max ! 1) LOW_POWER_MAX_FREQ"
    for b env' n buf k
  proof -
    have "uevent_event b env' n buf st1 = (0, low_power_retry env' 1 RETRY_TIME_CHANGING_FREQ st1)"
      using recv sig idx mode flags by (simp add: uevent_event_def TOTAL_CPUS_def)
    also have "low_power_retry env' 1 RETRY_TIME_CHANGING_FREQ st1 =
       st1\<lparr>freq_set := (freq_set st1)[1 := True],
              trace := trace st1 @
                concat (replicate k [Write (cpu_path_min ! 1) LOW_POWER_MIN_FREQ,
                                     Write (cpu_path_max ! 1) LOW_POWER_MAX_FREQ,
                                     Usleep SLEEP_USEC_BETWN_RETRY]) @
                [Write (cpu_path_min ! 1) LOW_POWER_MIN_FREQ,
                 Write (cpu_path_max ! 1) LOW_POWER_MAX_FREQ]\<rparr>"
      using k fails ok by (rule low_power_retry_success)
    finally show ?thesis by (simp add: flags)
  qed
  show ?thesis
    unfolding Let_def st1_def [symmetric]
    using mode flags event by blast
qed

text \<open>
  From the initial state, in a world where only CPU 1's maximum-bound endpoint refuses;
  the later event for \<^verbatim>\<open>cpu1\<close> arrives in a world that works from effect 13 on, so its
  first attempt (effect 10) fails and its second (effect 13) succeeds.
\<close>

theorem set_mode_cpu1_failure_then_event_witness:
  "freq_set init_state = [False, False, False, False] \<and>
   freq_set (grouper_power_hint env_cpu1_max_fails POWER_HINT_LOW_POWER 1 init_state)
     = [True, False, True, True] \<and>
   uevent_event False (env_ok_from 13) 46 (uevent_online ''cpu1'')
       (grouper_power_hint env_cpu1_max_fails POWER_HINT_LOW_POWER 1 init_state) =
     (0, (grouper_power_hint env_cpu1_max_fails POWER_HINT_LOW_POWER 1 init_state)
           \<lparr>freq_set := [True, True, True, True],
            trace := trace (grouper_power_hint env_cpu1_max_fails POWER_HINT_LOW_POWER 1 init_state) @
              [Write (cpu_path_min ! 1) LOW_POWER_MIN_FREQ,
               Write (cpu_path_max ! 1) LOW_POWER_MAX_FREQ,
               Usleep SLEEP_USEC_BETWN_RETRY,
               Write (cpu_path_min ! 1) LOW_POWER_MIN_FREQ,
               Write (cpu_path_max ! 1) LOW_POWER_MAX_FREQ]\<rparr>)"
proof -
  let ?S1 = "grouper_power_hint env_cpu1_max_fails POWER_HINT_LOW_POWER 1 init_state"
  have len: "length (freq_set init_state) = TOTAL_CPUS"
    by (simp add: init_freq_set TOTAL_CPUS_def)
  have unset: "\<not> freq_set init_state ! 1"
    by (simp add: init_freq_set)
  have data: "(1::nat) \<noteq> 0"
    by simp
  have fail1: "\<forall>t. \<not> env_cpu1_max_fails t (cpu_path_max ! 1) LOW_POWER_MAX_FREQ"
    by (simp add: env_cpu1_max_fails_def)
  have ok023: "\<forall>t. \<forall>c\<in>{0, 2, 3}. env_cpu1_max_fails t (cpu_path_max ! c) LOW_POWER_MAX_FREQ"
    by (simp add: env_cpu1_max_fails_def cpu_path_max_def)
  note inst = set_mode_cpu1_failure_then_event [of init_state 1 env_cpu1_max_fails, OF len unset data fail1 ok023, unfolded Let_def]
  from inst have flags: "freq_set ?S1 = [True, False, True, True]"
    by blast
  have t9: "length (trace ?S1) = 9"
    by (simp add: hint_trace_length init_state_def)
  have pre: "0 < (46::int) \<and> 46 < UEVENT_MSG_LEN \<and>
      strstr (c_str (uevent_online ''cpu1'')) UEVENT_STRING \<and>
      parse_cpu False (c_str (uevent_online ''cpu1'')) = (1, None) \<and>
      1 < RETRY_TIME_CHANGING_FREQ \<and>
      (\<forall>j<1. \<not> env_ok_from 13 (length (trace ?S1) + 3 * j + 1) (cpu_path_max ! 1) LOW_POWER_MAX_FREQ) \<and>
      env_ok_from 13 (length (trace ?S1) + 3 * 1 + 1) (cpu_path_max ! 1) LOW_POWER_MAX_FREQ"
    using t9
    by (simp add: UEVENT_MSG_LEN_def RETRY_TIME_CHANGING_FREQ_def env_ok_from_def
          online_cpu_sig online_cpu_parse)
  from inst have "0 < (46::int) \<and> 46 < UEVENT_MSG_LEN \<and>
      strstr (c_str (uevent_online ''cpu1'')) UEVENT_STRING \<and>
      parse_cpu False (c_str (uevent_online ''cpu1'')) = (1, None) \<and>
      1 < RETRY_TIME_CHANGING_FREQ \<and>
      (\<forall>j<1. \<not> env_ok_from 13 (length (trace ?S1) + 3 * j + 1) (cpu_path_max ! 1) LOW_POWER_MAX_FREQ) \<and>
      env_ok_from 13 (length (trace ?S1) + 3 * 1 + 1) (cpu_path_max ! 1) LOW_POWER_MAX_FREQ \<longrightarrow>
      uevent_event False (env_ok_from 13) 46 (uevent_online ''cpu1'') ?S1 =
        (0, ?S1\<lparr>freq_set := [True, True, True, True],
                 trace := trace ?S1 @
                   concat (replicate 1 [Write (cpu_path_min ! 1) LOW_POWER_MIN_FREQ,
                                        Write (cpu_path_max ! 1) LOW_POWER_MAX_FREQ,
                                        Usleep SLEEP_USEC_BETWN_RETRY]) @
                   [Write (cpu_path_min ! 1) LOW_POWER_MIN_FREQ,
                    Write (cpu_path_max ! 1) LOW_POWER_MAX_FREQ]\<rparr>)"
    by blast
  with pre have "uevent_event False (env_ok_from 13) 46 (uevent_online ''cpu1'') ?S1 =
        (0, ?S1\<lparr>freq_set := [True, True, True, True],
                 trace := trace ?S1 @
                   concat (replicate 1 [Write (cpu_path_min ! 1) LOW_POWER_MIN_FREQ,
                                        Write (cpu_path_max ! 1) LOW_POWER_MAX_FREQ,
                                        Usleep SLEEP_USEC_BETWN_RETRY]) @
                   [Write (cpu_path_min ! 1) LOW_POWER_MIN_FREQ,
                    Write (cpu_path_max ! 1) LOW_POWER_MAX_FREQ]\<rparr>)"
    by (rule rev_mp)
  then have event: "uevent_event False (env_ok_from 13) 46 (uevent_online ''cpu1'') ?S1 =
        (0, ?S1\<lparr>freq_set := [True, True, True, True],
                 trace := trace ?S1 @
                   [Write (cpu_path_min ! 1) LOW_POWER_MIN_FREQ,
                    Write (cpu_path_max ! 1) LOW_POWER_MAX_FREQ,
                    Usleep SLEEP_USEC_BETWN_RETRY,
                    Write (cpu_path_min ! 1) LOW_POWER_MIN_FREQ,
                    Write (cpu_path_max ! 1) LOW_POWER_MAX_FREQ]\<rparr>)"
    by simp
  from init_freq_set flags event show ?thesis
    by blast
qed

text \<open>
  Without the starting condition the statement fails. After a low-power request that
  set every flag, a second request during which only CPU 1's maximum-bound write (effect
  13) fails leaves CPU 1's flag true, since a failed write leaves the flag as it was;
  the following online event for CPU 1 then finds nothing to do and writes nothing.
\<close>

theorem set_mode_cpu1_failure_counterexample:
  "\<not> env_cpu1_max_fails 13 (cpu_path_max ! 1) LOW_POWER_MAX_FREQ \<and>
   freq_set (grouper_power_hint env_cpu1_max_fails POWER_HINT_LOW_POWER 1
              (grouper_power_hint env_all_ok POWER_HINT_LOW_POWER 1 init_state))
     = [True, True, True, True] \<and>
   uevent_event False env_all_ok 46 (uevent_online ''cpu1'')
       (grouper_power_hint env_cpu1_max_fails POWER_HINT_LOW_POWER 1
         (grouper_power_hint env_all_ok POWER_HINT_LOW_POWER 1 init_state)) =
     (0, grouper_power_hint env_cpu1_max_fails POWER_HINT_LOW_POWER 1
           (grouper_power_hint env_all_ok POWER_HINT_LOW_POWER 1 init_state))"
proof -
  let ?S0 = "grouper_power_hint env_all_ok POWER_HINT_LOW_POWER 1 init_state"
  let ?S1 = "grouper_power_hint env_cpu1_max_fails POWER_HINT_LOW_POWER 1 ?S0"
  have refuses: "\<not> env_cpu1_max_fails 13 (cpu_path_max ! 1) LOW_POWER_MAX_FREQ"
    by (simp add: env_cpu1_max_fails_def)
  have flags0: "freq_set ?S0 = [True, True, True, True]"
    by (simp add: grouper_power_hint_def Let_def cpus_upt low_power_body_freq
          low_power_body_trace sysfs_write_def env_all_ok_def init_freq_set)
  have all0: "\<forall>cpu<TOTAL_CPUS. freq_set ?S0 ! cpu = ((1::nat) \<noteq> 0)"
    unfolding flags0 by (auto simp: TOTAL_CPUS_def numeral_eq_Suc less_Suc_eq)
  have "freq_set ?S1 = freq_set ?S0"
    using all0 by (rule hint_low_power_freq_id)
  with flags0 have flags1: "freq_set ?S1 = [True, True, True, True]"
    by simp
  have mode1: "low_power_mode ?S1"
    by (simp add: hint_low_power_mode)
  have event: "uevent_event False env_all_ok 46 (uevent_online ''cpu1'') ?S1 = (0, ?S1)"
    using flags1 mode1
    by (simp add: uevent_event_def UEVENT_MSG_LEN_def TOTAL_CPUS_def online_cpu_sig
          online_cpu_parse)
  from refuses flags1 event show ?thesis
    by blast
qed

subsection \<open>The retry loop of the handler\<close>

text \<open>
  Claim C5. For every received online event with a valid CPU index, when the mode is
  low-power and that CPU's flag is false, the handler runs at most
  \<^verbatim>\<open>RETRY_TIME_CHANGING_FREQ\<close> (20) attempts. Each attempt writes the minimum bound,
  then the maximum bound, and only the result of the maximum-bound write is looked at:
  at the first attempt \<open>k\<close> whose maximum-bound write succeeds the flag becomes true and
  the loop stops, after \<open>k\<close> failed attempts each followed by a sleep of
  \<^verbatim>\<open>SLEEP_USEC_BETWN_RETRY\<close> microseconds; when all 20 maximum-bound writes fail the
  flag stays false. Nothing is assumed about the minimum-bound writes.
\<close>

theorem uevent_low_power_retry:
  assumes recv: "0 < n" "n < UEVENT_MSG_LEN"
    and sig: "strstr (c_str buf) UEVENT_STRING"
    and idx: "parse_cpu b (c_str buf) = (int cpu, None)" "cpu < TOTAL_CPUS"
    and mode: "low_power_mode st" "\<not> freq_set st ! cpu"
  shows "(\<forall>k<RETRY_TIME_CHANGING_FREQ.
            (\<forall>j<k. \<not> env (length (trace st) + 3 * j + 1) (cpu_path_max ! cpu) LOW_POWER_MAX_FREQ) \<and>
            env (length (trace st) + 3 * k + 1) (cpu_path_max ! cpu) LOW_POWER_MAX_FREQ \<longrightarrow>
            uevent_event b env n buf st =
              (0, st\<lparr>freq_set := (freq_set st)[cpu := True],
                     trace := trace st @
                       concat (replicate k [Write (cpu_path_min ! cpu) LOW_POWER_MIN_FREQ,
                                            Write (cpu_path_max ! cpu) LOW_POWER_MAX_FREQ,
                                            Usleep SLEEP_USEC_BETWN_RETRY]) @
                       [Write (cpu_path_min ! cpu) LOW_POWER_MIN_FREQ,
                        Write (cpu_path_max ! cpu) LOW_POWER_MAX_FREQ]\<rparr>)) \<and>
         ((\<forall>j<RETRY_TIME_CHANGING_FREQ.
            \<not> env (length (trace st) + 3 * j + 1) (cpu_path_max ! cpu) LOW_POWER_MAX_FREQ) \<longrightarrow>
            uevent_event b env n buf st =
              (0, st\<lparr>trace := trace st @
                       concat (replicate RETRY_TIME_CHANGING_FREQ
                                 [Write (cpu_path_min ! cpu) LOW_POWER_MIN_FREQ,
                                  Write (cpu_path_max ! cpu) LOW_POWER_MAX_FREQ,
                                  Usleep SLEEP_USEC_BETWN_RETRY])\<rparr>))"
proof -
  have run: "uevent_event b env n buf st =
               (0, low_power_retry env cpu RETRY_TIME_CHANGING_FREQ st)"
    using recv sig idx mode by (rule uevent_runs_low_power_retry)
  show ?thesis
    unfolding run
    by (intro conjI allI impI) (simp_all add: low_power_retry_success low_power_retry_exhaust)
qed

text \<open>
  An event for \<^verbatim>\<open>cpu2\<close> in low-power mode with no flag set and 9 effects so far: in a
  world that works from effect 13 on, the second attempt succeeds; in a world where
  nothing works, 20 attempts are made and the flags stay as they were.
\<close>

theorem uevent_low_power_retry_witness:
  "uevent_event False (env_ok_from 13) 46 (uevent_online ''cpu2'') lp_unapplied =
     (0, lp_unapplied\<lparr>freq_set := [False, False, True, False],
                      trace := trace lp_unapplied @
                        [Write (cpu_path_min ! 2) LOW_POWER_MIN_FREQ,
                         Write (cpu_path_max ! 2) LOW_POWER_MAX_FREQ,
                         Usleep SLEEP_USEC_BETWN_RETRY,
                         Write (cpu_path_min ! 2) LOW_POWER_MIN_FREQ,
                         Write (cpu_path_max ! 2) LOW_POWER_MAX_FREQ]\<rparr>) \<and>
   uevent_event False env_none_ok 46 (uevent_online ''cpu2'') lp_unapplied =
     (0, lp_unapplied\<lparr>trace := trace lp_unapplied @
                        concat (replicate 20 [Write (cpu_path_min ! 2) LOW_POWER_MIN_FREQ,
                                              Write (cpu_path_max ! 2) LOW_POWER_MAX_FREQ,
                                              Usleep SLEEP_USEC_BETWN_RETRY])\<rparr>)"
proof -
  have recv: "0 < (46::int)" "46 < UEVENT_MSG_LEN"
    by (simp_all add: UEVENT_MSG_LEN_def)
  have sig: "strstr (c_str (uevent_online ''cpu2'')) UEVENT_STRING"
    by (rule online_cpu_sig)
  have idx: "parse_cpu False (c_str (uevent_online ''cpu2'')) = (int 2, None)" "2 < TOTAL_CPUS"
    by (simp_all add: online_cpu_parse TOTAL_CPUS_def)
  have mode: "low_power_mode lp_unapplied" "\<not> freq_set lp_unapplied ! 2"
    by (simp_all add: lp_unapplied_mode lp_unapplied_flags)
  have t9: "length (trace lp_unapplied) = 9"
    by (simp add: lp_unapplied_eq)
  note late = uevent_low_power_retry [of 46 "uevent_online ''cpu2''" False 2 lp_unapplied
      "env_ok_from 13", OF recv sig idx mode]
  note never = uevent_low_power_retry [of 46 "uevent_online ''cpu2''" False 2 lp_unapplied
      env_none_ok, OF recv sig idx mode]
  have k: "(1::nat) < RETRY_TIME_CHANGING_FREQ"
    by (simp add: RETRY_TIME_CHANGING_FREQ_def)
  have pre: "(\<forall>j<1. \<not> env_ok_from 13 (length (trace lp_unapplied) + 3 * j + 1)
                        (cpu_path_max ! 2) LOW_POWER_MAX_FREQ) \<and>
             env_ok_from 13 (length (trace lp_unapplied) + 3 * 1 + 1)
               (cpu_path_max ! 2) LOW_POWER_MAX_FREQ"
    by (simp add: t9 env_ok_from_def)
  from late k pre
  have "uevent_event False (env_ok_from 13) 46 (uevent_online ''cpu2'') lp_unapplied =
     (0, lp_unapplied\<lparr>freq_set := (freq_set lp_unapplied)[2 := True],
                      trace := trace lp_unapplied @
                        concat (replicate 1 [Write (cpu_path_min ! 2) LOW_POWER_MIN_FREQ,
                                             Write (cpu_path_max ! 2) LOW_POWER_MAX_FREQ,
                                             Usleep SLEEP_USEC_BETWN_RETRY]) @
                        [Write (cpu_path_min ! 2) LOW_POWER_MIN_FREQ,
                         Write (cpu_path_max ! 2) LOW_POWER_MAX_FREQ]\<rparr>)"
    by blast
  then have first: "uevent_event False (env_ok_from 13) 46 (uevent_online ''cpu2'') lp_unapplied =
     (0, lp_unapplied\<lparr>freq_set := [False, False, True, False],
                      trace := trace lp_unapplied @
                        [Write (cpu_path_min ! 2) LOW_POWER_MIN_FREQ,
                         Write (cpu_path_max ! 2) LOW_POWER_MAX_FREQ,
                         Usleep SLEEP_USEC_BETWN_RETRY,
                         Write (cpu_path_min ! 2) LOW_POWER_MIN_FREQ,
                         Write (cpu_path_max ! 2) LOW_POWER_MAX_FREQ]\<rparr>)"
    by (simp add: lp_unapplied_flags)
  have none: "\<forall>j<RETRY_TIME_CHANGING_FREQ.
      \<not> env_none_ok (length (trace lp_unapplied) + 3 * j + 1) (cpu_path_max ! 2) LOW_POWER_MAX_FREQ"
    by (simp add: env_none_ok_def)
  from never none
  have "uevent_event False env_none_ok 46 (uevent_online ''cpu2'') lp_unapplied =
     (0, lp_unapplied\<lparr>trace := trace lp_unapplied @
                        concat (replicate RETRY_TIME_CHANGING_FREQ
                                  [Write (cpu_path_min ! 2) LOW_POWER_MIN_FREQ,
                                   Write (cpu_path_max ! 2) LOW_POWER_MAX_FREQ,
                                   Usleep SLEEP_USEC_BETWN_RETRY])\<rparr>)"
    by blast
  then have second: "uevent_event False env_none_ok 46 (uevent_online ''cpu2'') lp_unapplied =
     (0, lp_unapplied\<lparr>trace := trace lp_unapplied @
                        concat (replicate 20 [Write (cpu_path_min ! 2) LOW_POWER_MIN_FREQ,
                                              Write (cpu_path_max ! 2) LOW_POWER_MAX_FREQ,
                                              Usleep SLEEP_USEC_BETWN_RETRY])\<rparr>)"
    by (simp only: RETRY_TIME_CHANGING_FREQ_def)
  from first second show ?thesis
    by blast
qed

subsection \<open>Events that need no work, and events that are not read\<close>

text \<open>
  Claim C6. For every received online event with a valid CPU index, if neither
  (low-power mode and flag false) nor (normal mode and flag true) holds, the handler
  returns 0 with the state as it was: no endpoint write, mode and every applied flag
  unchanged.
\<close>

theorem uevent_consistent_noop:
  assumes recv: "0 < n" "n < UEVENT_MSG_LEN"
    and sig: "strstr (c_str buf) UEVENT_STRING"
    and idx: "parse_cpu b (c_str buf) = (int cpu, None)" "cpu < TOTAL_CPUS"
    and no_lp: "\<not> (low_power_mode st \<and> \<not> freq_set st ! cpu)"
    and no_normal: "\<not> (\<not> low_power_mode st \<and> freq_set st ! cpu)"
  shows "uevent_event b env n buf st = (0, st)"
  using assms by (auto simp add: uevent_event_def)

text \<open>
  An event for \<^verbatim>\<open>cpu2\<close> in the initial state (normal mode, flag false), and one after
  a low-power request that set every flag.
\<close>

theorem uevent_consistent_noop_witness:
  "uevent_event False env_all_ok 46 (uevent_online ''cpu2'') init_state = (0, init_state) \<and>
   uevent_event False env_all_ok 46 (uevent_online ''cpu2'')
       (grouper_power_hint env_all_ok POWER_HINT_LOW_POWER 1 init_state) =
     (0, grouper_power_hint env_all_ok POWER_HINT_LOW_POWER 1 init_state)"
proof -
  let ?S = "grouper_power_hint env_all_ok POWER_HINT_LOW_POWER 1 init_state"
  have recv: "0 < (46::int)" "46 < UEVENT_MSG_LEN"
    by (simp_all add: UEVENT_MSG_LEN_def)
  have sig: "strstr (c_str (uevent_online ''cpu2'')) UEVENT_STRING"
    by (rule online_cpu_sig)
  have idx: "parse_cpu False (c_str (uevent_online ''cpu2'')) = (int 2, None)" "2 < TOTAL_CPUS"
    by (simp_all add: online_cpu_parse TOTAL_CPUS_def)
  have i1: "\<not> (low_power_mode init_state \<and> \<not> freq_set init_state ! 2)"
    by (simp add: init_state_def)
  have i2: "\<not> (\<not> low_power_mode init_state \<and> freq_set init_state ! 2)"
    by (simp add: init_freq_set)
  have flags: "freq_set ?S = [True, True, True, True]"
    by (simp add: grouper_power_hint_def Let_def cpus_upt low_power_body_freq
          low_power_body_trace sysfs_write_def env_all_ok_def init_freq_set)
  have s1: "\<not> (low_power_mode ?S \<and> \<not> freq_set ?S ! 2)"
    using flags by simp
  have s2: "\<not> (\<not> low_power_mode ?S \<and> freq_set ?S ! 2)"
    by (simp add: hint_low_power_mode)
  from uevent_consistent_noop [of 46 "uevent_online ''cpu2''" False 2 init_state env_all_ok,
      OF recv sig idx i1 i2]
    uevent_consistent_noop [of 46 "uevent_online ''cpu2''" False 2 ?S env_all_ok,
      OF recv sig idx s1 s2]
  show ?thesis by blast
qed

text \<open>
  Claim C7. When \<^verbatim>\<open>recv\<close> returns nothing or an error (\<open>n \<le> 0\<close>), or a length at or
  above \<^verbatim>\<open>UEVENT_MSG_LEN\<close> (2048), the handler returns -1 with the state as it was,
  whatever the buffer holds: the message is not searched for the signature, no CPU index
  is extracted, nothing is mutated and nothing is written.
\<close>

theorem uevent_bad_length:
  "n \<le> 0 \<or> n \<ge> UEVENT_MSG_LEN \<Longrightarrow> uevent_event b env n buf st = (- 1, st)"
  by (auto simp add: uevent_event_def)

text \<open>
  A well-formed event for \<^verbatim>\<open>cpu1\<close> that would otherwise start the retry loop, with
  return values 2048, 0 and -1 of \<^verbatim>\<open>recv\<close>.
\<close>

theorem uevent_bad_length_witness:
  "uevent_event False env_all_ok 2048 (uevent_online ''cpu1'') lp_unapplied = (- 1, lp_unapplied) \<and>
   uevent_event False env_all_ok 0 (uevent_online ''cpu1'') lp_unapplied = (- 1, lp_unapplied) \<and>
   uevent_event False env_all_ok (- 1) (uevent_online ''cpu1'') lp_unapplied = (- 1, lp_unapplied)"
proof -
  have big: "(2048::int) \<le> 0 \<or> 2048 \<ge> UEVENT_MSG_LEN"
    by (simp add: UEVENT_MSG_LEN_def)
  have zero: "(0::int) \<le> 0 \<or> 0 \<ge> UEVENT_MSG_LEN"
    by simp
  have neg: "(- 1::int) \<le> 0 \<or> - 1 \<ge> UEVENT_MSG_LEN"
    by simp
  from uevent_bad_length [OF big] uevent_bad_length [OF zero] uevent_bad_length [OF neg]
  show ?thesis by blast
qed

subsection \<open>The low-power hint\<close>

text \<open>
  Claim C8. After every \<^verbatim>\<open>POWER_HINT_LOW_POWER\<close> invocation \<^verbatim>\<open>low_power_mode\<close> is true
  exactly when \<open>data\<close> is not \<^verbatim>\<open>NULL\<close>, whatever the world does to the writes. The
  assignment comes before the per-CPU loop: the whole invocation is that loop, run from
  the state in which the core-lock trigger has been written and the mode is already the
  requested one.
\<close>

theorem hint_low_power_sets_mode:
  "low_power_mode (grouper_power_hint env POWER_HINT_LOW_POWER data st) = (data \<noteq> 0) \<and>
   grouper_power_hint env POWER_HINT_LOW_POWER data st =
     fold (if data \<noteq> 0 then low_power_body env else normal_body env) [0..<TOTAL_CPUS]
       (st\<lparr>trace := trace st @ [Write CPUQUIET_CORE_LOCKER (if data \<noteq> 0 then ''0'' else ''1'')],
           low_power_mode := (data \<noteq> 0)\<rparr>)"
  by (simp add: grouper_power_hint_def Let_def fold_low_power_mode fold_normal_mode
        sysfs_write_def)

text \<open>
  Claim C9. Every \<^verbatim>\<open>POWER_HINT_LOW_POWER\<close> invocation first writes the core-lock
  trigger, \<^verbatim>\<open>"0"\<close> when entering low-power and \<^verbatim>\<open>"1"\<close> when entering normal, and only
  then the per-CPU frequency bounds. The effects it adds do not depend on the applied
  flags, on the mode before, or on the outcome of any write.
\<close>

theorem hint_low_power_trace:
  "trace (grouper_power_hint env POWER_HINT_LOW_POWER data st) =
     trace st @ Write CPUQUIET_CORE_LOCKER (if data \<noteq> 0 then ''0'' else ''1'') #
       (if data \<noteq> 0
        then concat (map (\<lambda>c. [Write (cpu_path_min ! c) LOW_POWER_MIN_FREQ,
                                Write (cpu_path_max ! c) LOW_POWER_MAX_FREQ]) [0..<TOTAL_CPUS])
        else map (\<lambda>c. Write (cpu_path_max ! c) NORMAL_MAX_FREQ) [0..<TOTAL_CPUS])"
  by (simp add: grouper_power_hint_def Let_def fold_low_power_trace fold_normal_trace
        sysfs_write_def)

subsection \<open>Other hints\<close>

text \<open>
  Claim C10. For every hint other than \<^verbatim>\<open>POWER_HINT_INTERACTION\<close> and
  \<^verbatim>\<open>POWER_HINT_LOW_POWER\<close> the entry point returns the state as it was: no endpoint
  write, mode flag and applied flags unchanged.
\<close>

theorem hint_other_noop:
  "hint \<noteq> POWER_HINT_INTERACTION \<Longrightarrow> hint \<noteq> POWER_HINT_LOW_POWER \<Longrightarrow>
   grouper_power_hint env hint data st = st"
  by (cases hint) (simp_all add: grouper_power_hint_def)

theorem hint_other_noop_witness:
  "POWER_HINT_OTHER 1 \<noteq> POWER_HINT_INTERACTION \<and>
   POWER_HINT_OTHER 1 \<noteq> POWER_HINT_LOW_POWER \<and>
   grouper_power_hint env_all_ok (POWER_HINT_OTHER 1) 1 lp_unapplied = lp_unapplied"
proof -
  have a: "POWER_HINT_OTHER 1 \<noteq> POWER_HINT_INTERACTION"
    by simp
  have b: "POWER_HINT_OTHER 1 \<noteq> POWER_HINT_LOW_POWER"
    by simp
  from hint_other_noop [OF a b, of env_all_ok 1 lp_unapplied] a b
  show ?thesis by blast
qed

end
